theory Spec2Isabelle
  imports Main "HOL-Library.Word"
begin

unbundle bit_operations_syntax

section \<open>Go library functions used by the translate package\<close>

text \<open>
  Go strings are byte sequences: \<open>len\<close> counts bytes and \<open>s[i:j]\<close> slices bytes.
  They are modelled as \<^typ>\<open>string\<close>, whose characters are bytes.
\<close>

subsection \<open>strings.Join\<close>

fun Join :: "string list \<Rightarrow> string \<Rightarrow> string" where
  "Join [] sep = []"
| "Join [e] sep = e"
| "Join (e # es) sep = e @ sep @ Join es sep"

subsection \<open>crypto/sha256.Sum256 and encoding/hex.EncodeToString\<close>

text \<open>
  SHA-256 as the Go standard library computes it (FIPS 180-4): the message is padded with
  the byte 0x80, zero bytes up to 56 modulo 64 and the bit length as a big-endian 64-bit
  word; every 64-byte block updates eight 32-bit words; the digest is their big-endian
  bytes, 32 in all.
\<close>

definition K256 :: "32 word list" where
  "K256 = concat
     [[0x428a2f98, 0x71374491, 0xb5c0fbcf, 0xe9b5dba5, 0x3956c25b, 0x59f111f1, 0x923f82a4, 0xab1c5ed5],
      [0xd807aa98, 0x12835b01, 0x243185be, 0x550c7dc3, 0x72be5d74, 0x80deb1fe, 0x9bdc06a7, 0xc19bf174],
      [0xe49b69c1, 0xefbe4786, 0x0fc19dc6, 0x240ca1cc, 0x2de92c6f, 0x4a7484aa, 0x5cb0a9dc, 0x76f988da],
      [0x983e5152, 0xa831c66d, 0xb00327c8, 0xbf597fc7, 0xc6e00bf3, 0xd5a79147, 0x06ca6351, 0x14292967],
      [0x27b70a85, 0x2e1b2138, 0x4d2c6dfc, 0x53380d13, 0x650a7354, 0x766a0abb, 0x81c2c92e, 0x92722c85],
      [0xa2bfe8a1, 0xa81a664b, 0xc24b8b70, 0xc76c51a3, 0xd192e819, 0xd6990624, 0xf40e3585, 0x106aa070],
      [0x19a4c116, 0x1e376c08, 0x2748774c, 0x34b0bcb5, 0x391c0cb3, 0x4ed8aa4a, 0x5b9cca4f, 0x682e6ff3],
      [0x748f82ee, 0x78a5636f, 0x84c87814, 0x8cc70208, 0x90befffa, 0xa4506ceb, 0xbef9a3f7, 0xc67178f2]]"

type_synonym sha_state =
  "32 word \<times> 32 word \<times> 32 word \<times> 32 word \<times> 32 word \<times> 32 word \<times> 32 word \<times> 32 word"

definition init_state :: sha_state where
  "init_state =
     (0x6a09e667, 0xbb67ae85, 0x3c6ef372, 0xa54ff53a, 0x510e527f, 0x9b05688c, 0x1f83d9ab, 0x5be0cd19)"

definition sha_padding :: "nat \<Rightarrow> 8 word list" where
  "sha_padding n =
     (0x80 # replicate ((if n mod 64 < 56 then 56 - n mod 64 else 64 + 56 - n mod 64) - 1) 0)
      @ map (\<lambda>i. ucast (drop_bit (8 * (7 - i)) (push_bit 3 (of_nat n :: 64 word)))) [0..<8]"

fun be_words :: "8 word list \<Rightarrow> 32 word list" where
  "be_words (a # b # c # d # rest) =
     (push_bit 24 (ucast a) OR push_bit 16 (ucast b) OR push_bit 8 (ucast c) OR ucast d)
       # be_words rest"
| "be_words _ = []"

fun extend :: "nat \<Rightarrow> 32 word list \<Rightarrow> 32 word list" where
  "extend 0 w = w"
| "extend (Suc k) w =
     (let i = length w;
          v1 = w ! (i - 2);
          t1 = word_rotr 17 v1 XOR word_rotr 19 v1 XOR drop_bit 10 v1;
          v2 = w ! (i - 15);
          t2 = word_rotr 7 v2 XOR word_rotr 18 v2 XOR drop_bit 3 v2
      in extend k (w @ [t1 + w ! (i - 7) + t2 + w ! (i - 16)]))"

fun sha_round :: "sha_state \<Rightarrow> 32 word \<times> 32 word \<Rightarrow> sha_state" where
  "sha_round (a, b, c, d, e, f, g, h) (k, w) =
     (let t1 = h + (word_rotr 6 e XOR word_rotr 11 e XOR word_rotr 25 e)
                 + ((e AND f) XOR (NOT e AND g)) + k + w;
          t2 = (word_rotr 2 a XOR word_rotr 13 a XOR word_rotr 22 a)
                 + ((a AND b) XOR (a AND c) XOR (b AND c))
      in (t1 + t2, a, b, c, d + t1, e, f, g))"

fun sha_add :: "sha_state \<Rightarrow> sha_state \<Rightarrow> sha_state" where
  "sha_add (a, b, c, d, e, f, g, h) (a', b', c', d', e', f', g', h') =
     (a + a', b + b', c + c', d + d', e + e', f + f', g + g', h + h')"

definition sha_block :: "sha_state \<Rightarrow> 8 word list \<Rightarrow> sha_state" where
  "sha_block s p = sha_add s (foldl sha_round s (zip K256 (extend 48 (be_words p))))"

function sha_blocks :: "sha_state \<Rightarrow> 8 word list \<Rightarrow> sha_state" where
  "sha_blocks s p =
     (if length p < 64 then s else sha_blocks (sha_block s (take 64 p)) (drop 64 p))"
  by pat_completeness auto
termination
  by (relation "measure (\<lambda>(s, p). length p)") auto

declare sha_blocks.simps [simp del]

definition be_bytes :: "32 word \<Rightarrow> 8 word list" where
  "be_bytes w = [ucast (drop_bit 24 w), ucast (drop_bit 16 w), ucast (drop_bit 8 w), ucast w]"

fun state_bytes :: "sha_state \<Rightarrow> 8 word list" where
  "state_bytes (a, b, c, d, e, f, g, h) = concat (map be_bytes [a, b, c, d, e, f, g, h])"

definition Sum256 :: "string \<Rightarrow> 8 word list" where
  "Sum256 data =
     state_bytes (sha_blocks init_state (map of_char data @ sha_padding (length data)))"

definition hextable :: string where
  "hextable = ''0123456789abcdef''"

definition EncodeToString :: "8 word list \<Rightarrow> string" where
  "EncodeToString src =
     concat (map (\<lambda>v. [hextable ! unat (drop_bit 4 v), hextable ! unat (v AND 0x0f)]) src)"

section \<open>Kubernetes object metadata (k8s.io/apimachinery)\<close>

text \<open>
  A nil pointer, nil map or nil slice is \<open>None\<close>. A Go map read \<open>m[k]\<close> yields the zero
  value (the empty string) for a missing key.
\<close>

datatype Time = Time int

definition zero_Time :: Time where
  "zero_Time = Time 0"

record OwnerReference =
  APIVersion :: string
  Kind :: string
  Name :: string
  UID :: string
  Controller :: "bool option"
  BlockOwnerDeletion :: "bool option"

record ManagedFieldsEntry =
  Manager :: string
  Operation :: string

record ObjectMeta =
  Name :: string
  GenerateName :: string
  Namespace :: string
  SelfLink :: string
  UID :: string
  ResourceVersion :: string
  Generation :: "64 word"
  CreationTimestamp :: Time
  DeletionTimestamp :: "Time option"
  DeletionGracePeriodSeconds :: "64 word option"
  Labels :: "(string \<rightharpoonup> string) option"
  Annotations :: "(string \<rightharpoonup> string) option"
  OwnerReferences :: "OwnerReference list option"
  Finalizers :: "string list option"
  ClusterName :: string
  ManagedFields :: "ManagedFieldsEntry list option"

definition map_index :: "(string \<rightharpoonup> string) \<Rightarrow> string \<Rightarrow> string" where
  "map_index m k = (case m k of None \<Rightarrow> [] | Some v \<Rightarrow> v)"

text \<open>
  A \<open>runtime.Object\<close> either gives access to its \<open>ObjectMeta\<close> or does not, in which
  case \<open>meta.Accessor\<close> fails. The second component is the rest of the object.
\<close>

datatype 'a Object = MetaObject ObjectMeta 'a | PlainObject 'a

datatype error = ErrNotObject

fun Accessor :: "'a Object \<Rightarrow> error + ObjectMeta" where
  "Accessor (MetaObject m body) = Inr m"
| "Accessor (PlainObject body) = Inl ErrNotObject"

fun with_meta :: "'a Object \<Rightarrow> ObjectMeta \<Rightarrow> 'a Object" where
  "with_meta (MetaObject m body) m' = MetaObject m' body"
| "with_meta (PlainObject body) m' = PlainObject body"

record GroupVersion =
  Group :: string
  Version :: string

definition GroupVersion_String :: "GroupVersion \<Rightarrow> string" where
  "GroupVersion_String gv =
     (if length (Group gv) > 0 then Group gv @ ''/'' @ Version gv else Version gv)"

definition appsv1_SchemeGroupVersion :: GroupVersion where
  "appsv1_SchemeGroupVersion = \<lparr>Group = ''apps'', Version = ''v1''\<rparr>"

record StatefulSet =
  ObjectMeta :: ObjectMeta

section \<open>Package translate\<close>

text \<open>
  The package-level variables \<open>MarkerLabel\<close>, \<open>Suffix\<close> and \<open>OwningStatefulSet\<close> are
  mutable; every function that reads them takes their current values.
\<close>

record vars =
  MarkerLabel :: string
  Suffix :: string
  OwningStatefulSet :: "StatefulSet option"

definition initial_vars :: vars where
  "initial_vars =
     \<lparr>MarkerLabel = ''vcluster.loft.sh/managed-by'', Suffix = ''suffix'',
      OwningStatefulSet = None\<rparr>"

definition SafeConcatName :: "string list \<Rightarrow> string" where
  "SafeConcatName name =
     (let fullPath = Join name ''-''
      in if length fullPath > 63
         then (let digest = Sum256 fullPath
               in take 52 fullPath @ ''-'' @ take 10 (EncodeToString digest))
         else fullPath)"

definition PhysicalName :: "vars \<Rightarrow> string \<Rightarrow> string \<Rightarrow> string" where
  "PhysicalName g name namespace = SafeConcatName [name, ''x'', namespace, ''x'', Suffix g]"

fun UniqueSlice_loop ::
  "string list \<Rightarrow> (string \<rightharpoonup> bool) \<Rightarrow> string list \<Rightarrow> string list" where
  "UniqueSlice_loop [] keys list = list"
| "UniqueSlice_loop (entry # rest) keys list =
     (if entry = []
      then UniqueSlice_loop rest keys list
      else (case keys entry of
              None \<Rightarrow> UniqueSlice_loop rest (keys(entry \<mapsto> True)) (list @ [entry])
            | Some v \<Rightarrow> UniqueSlice_loop rest keys list))"

definition UniqueSlice :: "string list \<Rightarrow> string list" where
  "UniqueSlice stringSlice = UniqueSlice_loop stringSlice Map.empty []"

definition IsManaged :: "vars \<Rightarrow> 'a Object \<Rightarrow> bool" where
  "IsManaged g obj =
     (case Accessor obj of
        Inl err \<Rightarrow> False
      | Inr meta \<Rightarrow>
          (case Labels meta of
             None \<Rightarrow> False
           | Some labels \<Rightarrow> map_index labels (MarkerLabel g) = Suffix g))"

definition ResetObjectMetadata :: "ObjectMeta \<Rightarrow> ObjectMeta" where
  "ResetObjectMetadata obj =
     obj\<lparr>GenerateName := [],
         SelfLink := [],
         ObjectMeta.UID := [],
         ResourceVersion := [],
         Generation := 0,
         CreationTimestamp := zero_Time,
         DeletionTimestamp := None,
         DeletionGracePeriodSeconds := None,
         OwnerReferences := None,
         Finalizers := None,
         ClusterName := [],
         ManagedFields := None,
         Labels := None\<rparr>"

definition owning_reference :: "StatefulSet \<Rightarrow> OwnerReference" where
  "owning_reference s =
     \<lparr>APIVersion = GroupVersion_String appsv1_SchemeGroupVersion,
      Kind = ''StatefulSet'',
      OwnerReference.Name = ObjectMeta.Name (StatefulSet.ObjectMeta s),
      OwnerReference.UID = ObjectMeta.UID (StatefulSet.ObjectMeta s),
      Controller = None,
      BlockOwnerDeletion = None\<rparr>"

definition initMetadata :: "vars \<Rightarrow> string \<Rightarrow> 'a Object \<Rightarrow> error + 'a Object" where
  "initMetadata g targetNamespace target =
     (case Accessor target of
        Inl err \<Rightarrow> Inl err
      | Inr m0 \<Rightarrow>
          (let name = ObjectMeta.Name m0;
               namespace = Namespace m0;
               m1 = ResetObjectMetadata m0;
               m2 = m1\<lparr>ObjectMeta.Name := PhysicalName g name namespace\<rparr>;
               m3 = m2\<lparr>Namespace := targetNamespace\<rparr>;
               labels0 = (case Labels m3 of None \<Rightarrow> Map.empty | Some l \<Rightarrow> l);
               labels1 = labels0(MarkerLabel g \<mapsto> Suffix g);
               m4 = m3\<lparr>Labels := Some labels1\<rparr>;
               m5 = (case OwningStatefulSet g of
                       None \<Rightarrow> m4
                     | Some s \<Rightarrow> m4\<lparr>OwnerReferences := Some [owning_reference s]\<rparr>)
           in Inr (with_meta target m5)))"

definition SetupMetadata :: "vars \<Rightarrow> string \<Rightarrow> 'a Object \<Rightarrow> error + 'a Object" where
  "SetupMetadata g targetNamespace obj =
     (let target = obj
      in case initMetadata g targetNamespace target of
           Inl err \<Rightarrow> Inl err
         | Inr target' \<Rightarrow> Inr target')"

section \<open>Package pods: secret references of a pod\<close>

record LocalObjectReference =
  Name :: string

record SecretKeySelector =
  LocalObjectReference :: LocalObjectReference
  Key :: string

record EnvVarSource =
  SecretKeyRef :: "SecretKeySelector option"

record EnvVar =
  Name :: string
  Value :: string
  ValueFrom :: "EnvVarSource option"

record SecretEnvSource =
  LocalObjectReference :: LocalObjectReference

record EnvFromSource =
  Prefix :: string
  SecretRef :: "SecretEnvSource option"

record Container =
  Name :: string
  Env :: "EnvVar list"
  EnvFrom :: "EnvFromSource list"

record EphemeralContainer =
  Name :: string
  Env :: "EnvVar list"
  EnvFrom :: "EnvFromSource list"
  TargetContainerName :: string

record SecretVolumeSource =
  SecretName :: string

record Volume =
  Name :: string
  Secret :: "SecretVolumeSource option"

record PodSpec =
  Volumes :: "Volume list"
  InitContainers :: "Container list"
  Containers :: "Container list"
  EphemeralContainers :: "EphemeralContainer list"
  ImagePullSecrets :: "LocalObjectReference list"

record Pod =
  ObjectMeta :: ObjectMeta
  Spec :: PodSpec

text \<open>The bodies of the two loops over \<open>Env\<close> and \<open>EnvFrom\<close>.\<close>

definition env_step :: "string \<Rightarrow> string list \<Rightarrow> EnvVar \<Rightarrow> string list" where
  "env_step namespace secrets env =
     (case ValueFrom env of
        None \<Rightarrow> secrets
      | Some vf \<Rightarrow>
          (case SecretKeyRef vf of
             None \<Rightarrow> secrets
           | Some r \<Rightarrow>
               (if LocalObjectReference.Name (SecretKeySelector.LocalObjectReference r) \<noteq> []
                then secrets @ [namespace @ ''/''
                       @ LocalObjectReference.Name (SecretKeySelector.LocalObjectReference r)]
                else secrets)))"

definition envFrom_step :: "string \<Rightarrow> string list \<Rightarrow> EnvFromSource \<Rightarrow> string list" where
  "envFrom_step namespace secrets from =
     (case SecretRef from of
        None \<Rightarrow> secrets
      | Some r \<Rightarrow>
          (if LocalObjectReference.Name (SecretEnvSource.LocalObjectReference r) \<noteq> []
           then secrets @ [namespace @ ''/''
                  @ LocalObjectReference.Name (SecretEnvSource.LocalObjectReference r)]
           else secrets))"

definition SecretNamesFromContainer :: "string \<Rightarrow> Container \<Rightarrow> string list" where
  "SecretNamesFromContainer namespace container =
     (let secrets = [];
          secrets = foldl (env_step namespace) secrets (Container.Env container);
          secrets = foldl (envFrom_step namespace) secrets (Container.EnvFrom container)
      in secrets)"

definition SecretNamesFromEphemeralContainer ::
  "string \<Rightarrow> EphemeralContainer \<Rightarrow> string list" where
  "SecretNamesFromEphemeralContainer namespace container =
     (let secrets = [];
          secrets = foldl (env_step namespace) secrets (EphemeralContainer.Env container);
          secrets = foldl (envFrom_step namespace) secrets (EphemeralContainer.EnvFrom container)
      in secrets)"

definition volume_step :: "string \<Rightarrow> string list \<Rightarrow> Volume \<Rightarrow> string list" where
  "volume_step namespace secrets v =
     (case Secret v of
        None \<Rightarrow> secrets
      | Some src \<Rightarrow> secrets @ [namespace @ ''/'' @ SecretName src])"

definition collect_secrets :: "Pod \<Rightarrow> string list" where
  "collect_secrets pod =
     (let ns = Namespace (Pod.ObjectMeta pod);
          secrets = [];
          secrets = foldl (\<lambda>secrets c. secrets @ SecretNamesFromContainer ns c)
                      secrets (Containers (Spec pod));
          secrets = foldl (\<lambda>secrets c. secrets @ SecretNamesFromContainer ns c)
                      secrets (InitContainers (Spec pod));
          secrets = foldl (\<lambda>secrets c. secrets @ SecretNamesFromEphemeralContainer ns c)
                      secrets (EphemeralContainers (Spec pod));
          secrets = foldl (\<lambda>secrets r. secrets @ [ns @ ''/'' @ LocalObjectReference.Name r])
                      secrets (ImagePullSecrets (Spec pod));
          secrets = foldl (volume_step ns) secrets (Volumes (Spec pod))
      in secrets)"

definition SecretNamesFromPod :: "Pod \<Rightarrow> string list" where
  "SecretNamesFromPod pod = UniqueSlice (collect_secrets pod)"

section \<open>Package server: the redirect resources of the API proxy\<close>

record GroupVersionResource =
  Group :: string
  Version :: string
  Resource :: string

record GroupVersionResourceVerb =
  GroupVersionResource :: GroupVersionResource
  Verb :: string
  SubResource :: string

definition corev1_SchemeGroupVersion :: GroupVersion where
  "corev1_SchemeGroupVersion = \<lparr>GroupVersion.Group = [], GroupVersion.Version = ''v1''\<rparr>"

definition WithResource :: "GroupVersion \<Rightarrow> string \<Rightarrow> GroupVersionResource" where
  "WithResource gv resource =
     \<lparr>GroupVersionResource.Group = GroupVersion.Group gv,
      GroupVersionResource.Version = GroupVersion.Version gv,
      Resource = resource\<rparr>"

text \<open>The \<open>redirectResources\<close> field that \<open>NewServer\<close> sets and hands to \<open>filters.WithRedirect\<close>.\<close>

definition redirectResources :: "GroupVersionResourceVerb list" where
  "redirectResources =
     [\<lparr>GroupVersionResource = WithResource corev1_SchemeGroupVersion ''nodes'',
       Verb = ''*'', SubResource = ''proxy''\<rparr>,
      \<lparr>GroupVersionResource = WithResource corev1_SchemeGroupVersion ''pods'',
       Verb = ''*'', SubResource = ''portforward''\<rparr>,
      \<lparr>GroupVersionResource = WithResource corev1_SchemeGroupVersion ''pods'',
       Verb = ''*'', SubResource = ''exec''\<rparr>,
      \<lparr>GroupVersionResource = WithResource corev1_SchemeGroupVersion ''pods'',
       Verb = ''*'', SubResource = ''attach''\<rparr>,
      \<lparr>GroupVersionResource = WithResource corev1_SchemeGroupVersion ''pods'',
       Verb = ''*'', SubResource = ''log''\<rparr>,
      \<lparr>GroupVersionResource = WithResource corev1_SchemeGroupVersion ''pods'',
       Verb = ''*'', SubResource = ''proxy''\<rparr>,
      \<lparr>GroupVersionResource = WithResource corev1_SchemeGroupVersion ''services'',
       Verb = ''*'', SubResource = ''proxy''\<rparr>]"

definition resource_pair :: "GroupVersionResourceVerb \<Rightarrow> string \<times> string" where
  "resource_pair r = (Resource (GroupVersionResource r), SubResource r)"

definition redirect_pairs :: "(string \<times> string) list" where
  "redirect_pairs = map resource_pair redirectResources"

definition redirect_resource_names :: "string list" where
  "redirect_resource_names = [''nodes'', ''pods'', ''services'']"

definition redirect_subresource_names :: "string list" where
  "redirect_subresource_names = [''proxy'', ''portforward'', ''exec'', ''attach'', ''log'']"

section \<open>Command create: the helm release values\<close>

subsection \<open>Go library functions used by getReleaseValues\<close>

text \<open>
  \<open>replaceRegEx\<close> is the regular expression \<open>[^0-9]+\<close>; replacing all its matches by the
  empty string keeps exactly the ASCII digits.
\<close>

definition is_digit :: "char \<Rightarrow> bool" where
  "is_digit c = (48 \<le> (of_char c :: nat) \<and> (of_char c :: nat) \<le> 57)"

definition replaceRegEx_ReplaceAllString :: "string \<Rightarrow> string" where
  "replaceRegEx_ReplaceAllString src = filter is_digit src"

text \<open>
  An error of the API client is observed through its message only; \<open>strconv.Atoi\<close> fails
  with a syntax error or a range error for its argument.
\<close>

datatype api_error = ApiError string

fun Error :: "api_error \<Rightarrow> string" where
  "Error (ApiError msg) = msg"

datatype cmd_error = ClientError api_error | ErrSyntax string | ErrRange string

definition digits_value :: "string \<Rightarrow> int" where
  "digits_value ds = foldl (\<lambda>n c. 10 * n + (int (of_char c) - 48)) 0 ds"

text \<open>\<open>strconv.Atoi\<close> with a 64-bit \<open>int\<close>: an optional sign, then decimal digits.\<close>

fun Atoi_digits :: "string \<Rightarrow> bool \<Rightarrow> string \<Rightarrow> cmd_error + int" where
  "Atoi_digits s neg ds =
     (if ds = [] then Inl (ErrSyntax s)
      else if list_all is_digit ds then
        (if neg
         then (if digits_value ds > 2 ^ 63 then Inl (ErrRange s) else Inr (- digits_value ds))
         else (if digits_value ds > 2 ^ 63 - 1 then Inl (ErrRange s)
               else Inr (digits_value ds)))
      else Inl (ErrSyntax s))"

fun Atoi :: "string \<Rightarrow> cmd_error + int" where
  "Atoi [] = Inl (ErrSyntax [])"
| "Atoi (c # cs) =
     (if c = CHR ''-'' then Atoi_digits (c # cs) True cs
      else if c = CHR ''+'' then Atoi_digits (c # cs) False cs
      else Atoi_digits (c # cs) False (c # cs))"

text \<open>\<open>strings.Index\<close>: the byte index of the first occurrence, or \<open>-1\<close>.\<close>

fun Index_from :: "nat \<Rightarrow> string \<Rightarrow> string \<Rightarrow> int" where
  "Index_from i [] substr = (if substr = [] then int i else - 1)"
| "Index_from i (c # s) substr =
     (if take (length substr) (c # s) = substr then int i else Index_from (Suc i) s substr)"

definition Index :: "string \<Rightarrow> string \<Rightarrow> int" where
  "Index s substr = Index_from 0 s substr"

text \<open>
  \<open>strings.TrimSpace\<close> removes leading and trailing white space as \<open>unicode.IsSpace\<close>
  defines it. On the bytes of the string these are the UTF-8 encodings of
  U+0009 to U+000D, U+0020, U+0085, U+00A0, U+1680, U+2000 to U+200A, U+2028, U+2029,
  U+202F, U+205F and U+3000.
\<close>

definition space_encodings :: "string list" where
  "space_encodings = map (map char_of)
     [[0x09], [0x0A], [0x0B], [0x0C], [0x0D], [0x20],
      [0xC2, 0x85], [0xC2, 0xA0], [0xE1, 0x9A, 0x80],
      [0xE2, 0x80, 0x80], [0xE2, 0x80, 0x81], [0xE2, 0x80, 0x82], [0xE2, 0x80, 0x83],
      [0xE2, 0x80, 0x84], [0xE2, 0x80, 0x85], [0xE2, 0x80, 0x86], [0xE2, 0x80, 0x87],
      [0xE2, 0x80, 0x88], [0xE2, 0x80, 0x89], [0xE2, 0x80, 0x8A],
      [0xE2, 0x80, 0xA8], [0xE2, 0x80, 0xA9], [0xE2, 0x80, 0xAF], [0xE2, 0x81, 0x9F],
      [0xE3, 0x80, 0x80 :: nat]]"

definition leading_width :: "string list \<Rightarrow> string \<Rightarrow> nat" where
  "leading_width encs s =
     (case find (\<lambda>e. take (length e) s = e) encs of None \<Rightarrow> 0 | Some e \<Rightarrow> length e)"

fun trim_leading :: "string list \<Rightarrow> string \<Rightarrow> string" where
  "trim_leading encs [] = []"
| "trim_leading encs (c # s) =
     (let n = leading_width encs (c # s)
      in if n = 0 then c # s else trim_leading encs (drop (n - 1) s))"

definition TrimSpace :: "string \<Rightarrow> string" where
  "TrimSpace s =
     rev (trim_leading (map rev space_encodings) (rev (trim_leading space_encodings s)))"

text \<open>\<open>strings.ReplaceAll\<close> for a non-empty \<open>old\<close>: non-overlapping matches, left to right.\<close>

function (sequential) ReplaceAll :: "string \<Rightarrow> string \<Rightarrow> string \<Rightarrow> string" where
  "ReplaceAll s (c # old) new =
     (if take (Suc (length old)) s = c # old
      then new @ ReplaceAll (drop (Suc (length old)) s) (c # old) new
      else (case s of [] \<Rightarrow> [] | x # xs \<Rightarrow> x # ReplaceAll xs (c # old) new))"
  by pat_completeness auto
termination
proof (relation "measure (\<lambda>(s, old, new). length s)")
  show "wf (measure (\<lambda>(s :: string, old :: string, new :: string). length s))"
    by simp
next
  fix s :: string and c :: char and old new :: string
  assume "take (Suc (length old)) s = c # old"
  then have "s \<noteq> []"
    by auto
  then show "((drop (Suc (length old)) s, c # old, new), (s, c # old, new))
               \<in> measure (\<lambda>(s, old, new). length s)"
    by simp
next
  fix s :: string and c :: char and old new :: string and x :: char and xs :: string
  assume "s = x # xs"
  then show "((xs, c # old, new), (s, c # old, new)) \<in> measure (\<lambda>(s, old, new). length s)"
    by simp
qed

subsection \<open>The client, the logger and the constants\<close>

record version_Info =
  Major :: string
  Minor :: string

record ServicePort =
  Port :: "32 word"

record ServiceSpec =
  Ports :: "ServicePort list"
  ClusterIP :: string

record Service =
  ObjectMeta :: ObjectMeta
  Spec :: ServiceSpec

text \<open>
  The two calls made on the client: \<open>Discovery().ServerVersion()\<close> and
  \<open>CoreV1().Services(namespace).Create(...)\<close>, the latter observed only through its error.
\<close>

record client =
  ServerVersion :: "api_error + version_Info"
  Services_Create :: "string \<Rightarrow> Service \<Rightarrow> api_error option"

datatype log_entry = Infof string "string list" | Warnf string "string list"

definition empty_ObjectMeta :: ObjectMeta where
  "empty_ObjectMeta =
     \<lparr>ObjectMeta.Name = [], GenerateName = [], Namespace = [], SelfLink = [],
      ObjectMeta.UID = [], ResourceVersion = [], Generation = 0,
      CreationTimestamp = zero_Time, DeletionTimestamp = None,
      DeletionGracePeriodSeconds = None, Labels = None, Annotations = None,
      OwnerReferences = None, Finalizers = None, ClusterName = [], ManagedFields = None\<rparr>"

definition VersionMap :: "(string \<times> string) list" where
  "VersionMap =
     [(''1.20'', ''rancher/k3s:v1.20.4-k3s1''),
      (''1.19'', ''rancher/k3s:v1.19.8-k3s1''),
      (''1.18'', ''rancher/k3s:v1.18.16-k3s1''),
      (''1.17'', ''rancher/k3s:v1.17.17-k3s1''),
      (''1.16'', ''rancher/k3s:v1.16.15-k3s1'')]"

definition noDeployValues :: string where
  "noDeployValues =
     ''  baseArgs:\<newline>''
     @ ''    - server\<newline>''
     @ ''    - --write-kubeconfig=/k3s-config/kube-config.yaml\<newline>''
     @ ''    - --data-dir=/data\<newline>''
     @ ''    - --no-deploy=traefik,servicelb,metrics-server,local-storage\<newline>''
     @ ''    - --disable-network-policy\<newline>''
     @ ''    - --disable-agent\<newline>''
     @ ''    - --disable-scheduler\<newline>''
     @ ''    - --disable-cloud-controller\<newline>''
     @ ''    - --flannel-backend=none\<newline>''
     @ ''    - --kube-controller-manager-arg=controllers=*,-nodeipam,-nodelifecycle,''
     @ ''-persistentvolume-binder,-attachdetach,-persistentvolume-expander,-cloud-node-lifecycle''"

definition baseArgsMap :: "(string \<times> string) list" where
  "baseArgsMap = [(''1.17'', noDeployValues), (''1.16'', noDeployValues)]"

definition errorMessageFind :: string where
  "errorMessageFind = ''provided IP is not in the valid range. The range of valid IPs is ''"

definition test_service :: Service where
  "test_service =
     \<lparr>Service.ObjectMeta = empty_ObjectMeta\<lparr>GenerateName := ''test-service-''\<rparr>,
      Service.Spec = \<lparr>Ports = [\<lparr>Port = 80\<rparr>], ClusterIP = ''4.4.4.4''\<rparr>\<rparr>"

subsection \<open>getReleaseValues\<close>

text \<open>Lines 209 to 220: the image and the version string, with the fallbacks.\<close>

definition select_image :: "string \<Rightarrow> int \<Rightarrow> log_entry list \<times> string \<times> string" where
  "select_image serverVersionString serverMinorInt =
     (case map_of VersionMap serverVersionString of
        Some image' \<Rightarrow> ([], image', serverVersionString)
      | None \<Rightarrow>
          (if serverMinorInt > 20
           then ([Infof (''officially unsupported host server version %s, ''
                          @ ''will fallback to virtual cluster version v1.20'')
                    [serverVersionString]],
                 map_index (map_of VersionMap) ''1.20'', ''1.20'')
           else ([Infof (''officially unsupported host server version %s, ''
                          @ ''will fallback to virtual cluster version v1.16'')
                    [serverVersionString]],
                 map_index (map_of VersionMap) ''1.16'', ''1.16'')))"

text \<open>Lines 222 to 248: the service CIDR from the outcome of the probe.\<close>

definition warn_no_cidr :: string where
  "warn_no_cidr =
     ''couldn't find cluster service cidr, will fallback to 10.96.0.0/12, ''
     @ ''however this is probably wrong, please make sure the host cluster ''
     @ ''service cidr and virtual cluster service cidr match''"

definition warn_no_cidr_in :: "string \<Rightarrow> string" where
  "warn_no_cidr_in errorMessage =
     ''couldn't find cluster service cidr ('' @ errorMessage
     @ ''), will fallback to 10.96.0.0/12, however this is probably ''
     @ ''wrong, please make sure the host cluster service cidr and ''
     @ ''virtual cluster service cidr match''"

definition probe_cidr :: "api_error option \<Rightarrow> log_entry list \<times> string" where
  "probe_cidr err =
     (case err of
        None \<Rightarrow> ([Warnf warn_no_cidr []], ''10.96.0.0/12'')
      | Some e \<Rightarrow>
          (let errorMessage = Error e;
               idx = Index errorMessage errorMessageFind
           in if idx = - 1
              then ([Warnf (warn_no_cidr_in errorMessage) []], ''10.96.0.0/12'')
              else ([], TrimSpace (drop (nat (idx + int (length errorMessageFind)))
                                     errorMessage))))"

text \<open>Lines 250 to 270: the values built from the template.\<close>

definition values_template :: string where
  "values_template =
     ''vcluster:\<newline>''
     @ ''  image: ##IMAGE##\<newline>''
     @ ''  extraArgs:\<newline>''
     @ ''    - --service-cidr=##CIDR##\<newline>''
     @ ''##BASEARGS##\<newline>''
     @ ''storage:\<newline>''
     @ ''  size: 5Gi\<newline>''"

definition build_values :: "string \<Rightarrow> string \<Rightarrow> string \<Rightarrow> bool \<Rightarrow> string" where
  "build_values image' cidr baseArgs disableIngressSync =
     (let values = values_template;
          values = (if disableIngressSync
                    then values @ ''\<newline>syncer:\<newline>  extraArgs: ['' @ [CHR 0x22]
                           @ ''--disable-sync-resources=ingresses'' @ [CHR 0x22] @ '']''
                    else values);
          values = ReplaceAll values ''##IMAGE##'' image';
          values = ReplaceAll values ''##CIDR##'' cidr;
          values = ReplaceAll values ''##BASEARGS##'' baseArgs;
          values = TrimSpace values
      in values)"

definition getReleaseValues ::
  "client \<Rightarrow> string \<Rightarrow> bool \<Rightarrow> log_entry list \<times> (cmd_error + string)" where
  "getReleaseValues c namespace disableIngressSync =
     (case ServerVersion c of
        Inl err \<Rightarrow> ([], Inl (ClientError err))
      | Inr serverVersion \<Rightarrow>
          (let serverVersionString =
                 replaceRegEx_ReplaceAllString (Major serverVersion) @ ''.''
                   @ replaceRegEx_ReplaceAllString (Minor serverVersion)
           in case Atoi (replaceRegEx_ReplaceAllString (Minor serverVersion)) of
                Inl err \<Rightarrow> ([], Inl err)
              | Inr serverMinorInt \<Rightarrow>
                  (case select_image serverVersionString serverMinorInt of
                     (log1, image', serverVersionString) \<Rightarrow>
                       (case probe_cidr (Services_Create c namespace test_service) of
                          (log2, cidr) \<Rightarrow>
                            (let baseArgs = map_index (map_of baseArgsMap) serverVersionString
                             in (log1 @ log2,
                                 Inr (build_values image' cidr baseArgs
                                        disableIngressSync)))))))"

section \<open>Notions used to state the properties\<close>

text \<open>
  \<open>uniq seen xs\<close> lists the non-empty entries of \<open>xs\<close> that are not in \<open>seen\<close>, each
  once, at its first occurrence.
\<close>

fun uniq :: "string set \<Rightarrow> string list \<Rightarrow> string list" where
  "uniq seen [] = []"
| "uniq seen (x # xs) =
     (if x = [] then uniq seen xs
      else if x \<in> seen then uniq seen xs
      else x # uniq (insert x seen) xs)"

text \<open>The three groups of secret references of a pod, in the order of their fields.\<close>

definition container_secrets :: "Pod \<Rightarrow> string list" where
  "container_secrets pod =
     concat (map (SecretNamesFromContainer (Namespace (Pod.ObjectMeta pod)))
               (Containers (Pod.Spec pod)))
     @ concat (map (SecretNamesFromContainer (Namespace (Pod.ObjectMeta pod)))
                 (InitContainers (Pod.Spec pod)))
     @ concat (map (SecretNamesFromEphemeralContainer (Namespace (Pod.ObjectMeta pod)))
                 (EphemeralContainers (Pod.Spec pod)))"

definition pull_secrets :: "Pod \<Rightarrow> string list" where
  "pull_secrets pod =
     map (\<lambda>r. Namespace (Pod.ObjectMeta pod) @ ''/'' @ LocalObjectReference.Name r)
       (ImagePullSecrets (Pod.Spec pod))"

definition volume_secrets :: "Pod \<Rightarrow> string list" where
  "volume_secrets pod =
     concat (map (\<lambda>v. case Secret v of
                         None \<Rightarrow> []
                       | Some src \<Rightarrow> [Namespace (Pod.ObjectMeta pod) @ ''/'' @ SecretName src])
               (Volumes (Pod.Spec pod)))"

text \<open>Environment entries and containers that reference no secret.\<close>

definition no_secret_env :: "EnvVar \<Rightarrow> bool" where
  "no_secret_env env =
     (case ValueFrom env of None \<Rightarrow> True | Some vf \<Rightarrow> SecretKeyRef vf = None)"

definition no_secret_envFrom :: "EnvFromSource \<Rightarrow> bool" where
  "no_secret_envFrom from = (SecretRef from = None)"

definition no_secret_container :: "Container \<Rightarrow> bool" where
  "no_secret_container c =
     (list_all no_secret_env (Container.Env c)
      \<and> list_all no_secret_envFrom (Container.EnvFrom c))"

definition no_secret_ephemeral :: "EphemeralContainer \<Rightarrow> bool" where
  "no_secret_ephemeral c =
     (list_all no_secret_env (EphemeralContainer.Env c)
      \<and> list_all no_secret_envFrom (EphemeralContainer.EnvFrom c))"

definition no_secret_volume :: "Volume \<Rightarrow> bool" where
  "no_secret_volume v = (Secret v = None)"

definition secret_env_named :: "string \<Rightarrow> EnvVar \<Rightarrow> bool" where
  "secret_env_named a env =
     (case ValueFrom env of
        None \<Rightarrow> False
      | Some vf \<Rightarrow>
          (case SecretKeyRef vf of
             None \<Rightarrow> False
           | Some r \<Rightarrow>
               LocalObjectReference.Name (SecretKeySelector.LocalObjectReference r) = a))"

definition secret_volume_named :: "string \<Rightarrow> Volume \<Rightarrow> bool" where
  "secret_volume_named b v =
     (case Secret v of None \<Rightarrow> False | Some src \<Rightarrow> SecretName src = b)"

text \<open>
  \<open>first_occurrence s sub pre post\<close>: \<open>s\<close> is \<open>pre\<close>, then \<open>sub\<close>, then \<open>post\<close>, and \<open>sub\<close> does
  not start at any earlier position of \<open>s\<close>.
\<close>

definition first_occurrence :: "string \<Rightarrow> string \<Rightarrow> string \<Rightarrow> string \<Rightarrow> bool" where
  "first_occurrence s sub pre post =
     (s = pre @ sub @ post
      \<and> list_all (\<lambda>k. take (length sub) (drop k s) \<noteq> sub) [0..<length pre])"

definition contains :: "string \<Rightarrow> string \<Rightarrow> bool" where
  "contains s sub = list_ex (\<lambda>k. take (length sub) (drop k s) = sub) [0..<Suc (length s)]"

section \<open>Example inputs\<close>

definition ex_sts :: StatefulSet where
  "ex_sts = \<lparr>StatefulSet.ObjectMeta =
      empty_ObjectMeta\<lparr>ObjectMeta.Name := ''vcluster-1'', ObjectMeta.UID := ''1234''\<rparr>\<rparr>"

definition ex_version :: version_Info where
  "ex_version = \<lparr>Major = ''1'', Minor = ''19+''\<rparr>"

definition range_error :: api_error where
  \<open>range_error = ApiError
     (''Service "test-service-x7k2p" is invalid: spec.clusterIP: Invalid value: "4.4.4.4": ''
      @ ''provided IP is not in the valid range. The range of valid IPs is 10.43.0.0/16'')\<close>

definition other_error :: api_error where
  \<open>other_error = ApiError
     ''services is forbidden: User "dev" cannot create resource "services"''\<close>

definition client_created :: client where
  "client_created = \<lparr>ServerVersion = Inr ex_version, Services_Create = (\<lambda>ns s. None)\<rparr>"

definition client_range :: client where
  "client_range =
     \<lparr>ServerVersion = Inr ex_version,
      Services_Create =
        (\<lambda>ns s. if ClusterIP (Service.Spec s) = ''4.4.4.4'' then Some range_error else None)\<rparr>"

definition client_other :: client where
  "client_other =
     \<lparr>ServerVersion = Inr ex_version, Services_Create = (\<lambda>ns s. Some other_error)\<rparr>"

definition test_pod :: Pod where
  "test_pod =
     \<lparr>Pod.ObjectMeta = empty_ObjectMeta\<lparr>ObjectMeta.Name := ''test'', Namespace := ''test''\<rparr>,
      Pod.Spec =
        \<lparr>Volumes = [\<lparr>Volume.Name = ''test'', Secret = Some \<lparr>SecretName = ''b''\<rparr>\<rparr>],
         InitContainers = [],
         Containers =
           [\<lparr>Container.Name = ''test'',
             Container.Env =
               [\<lparr>EnvVar.Name = ''test'', Value = [],
                 ValueFrom = Some \<lparr>SecretKeyRef = Some
                   \<lparr>SecretKeySelector.LocalObjectReference = \<lparr>LocalObjectReference.Name = ''a''\<rparr>,
                    Key = []\<rparr>\<rparr>\<rparr>],
             Container.EnvFrom = []\<rparr>],
         EphemeralContainers = [],
         ImagePullSecrets = []\<rparr>\<rparr>"

definition pull_secret_pod :: Pod where
  "pull_secret_pod =
     \<lparr>Pod.ObjectMeta = empty_ObjectMeta\<lparr>ObjectMeta.Name := ''web'', Namespace := ''test''\<rparr>,
      Pod.Spec =
        \<lparr>Volumes = [], InitContainers = [], Containers = [], EphemeralContainers = [],
         ImagePullSecrets = [\<lparr>LocalObjectReference.Name = []\<rparr>]\<rparr>\<rparr>"

definition volume_secret_pod :: Pod where
  "volume_secret_pod =
     \<lparr>Pod.ObjectMeta = empty_ObjectMeta\<lparr>ObjectMeta.Name := ''web'', Namespace := ''test''\<rparr>,
      Pod.Spec =
        \<lparr>Volumes = [\<lparr>Volume.Name = ''data'', Secret = Some \<lparr>SecretName = []\<rparr>\<rparr>],
         InitContainers = [], Containers = [], EphemeralContainers = [],
         ImagePullSecrets = []\<rparr>\<rparr>"

definition mixed_pod :: Pod where
  "mixed_pod =
     \<lparr>Pod.ObjectMeta = empty_ObjectMeta\<lparr>ObjectMeta.Name := ''web'', Namespace := ''test''\<rparr>,
      Pod.Spec =
        \<lparr>Volumes =
           [\<lparr>Volume.Name = ''data'', Secret = Some \<lparr>SecretName = ''b''\<rparr>\<rparr>,
            \<lparr>Volume.Name = ''again'', Secret = Some \<lparr>SecretName = ''a''\<rparr>\<rparr>],
         InitContainers =
           [\<lparr>Container.Name = ''init'', Container.Env = [],
             Container.EnvFrom =
               [\<lparr>Prefix = [],
                 SecretRef = Some
                   \<lparr>SecretEnvSource.LocalObjectReference =
                      \<lparr>LocalObjectReference.Name = ''i''\<rparr>\<rparr>\<rparr>]\<rparr>],
         Containers =
           [\<lparr>Container.Name = ''main'',
             Container.Env =
               [\<lparr>EnvVar.Name = ''key'', Value = [],
                 ValueFrom = Some \<lparr>SecretKeyRef = Some
                   \<lparr>SecretKeySelector.LocalObjectReference = \<lparr>LocalObjectReference.Name = ''a''\<rparr>,
                    Key = []\<rparr>\<rparr>\<rparr>],
             Container.EnvFrom = []\<rparr>],
         EphemeralContainers = [],
         ImagePullSecrets =
           [\<lparr>LocalObjectReference.Name = ''p''\<rparr>, \<lparr>LocalObjectReference.Name = ''i''\<rparr>]\<rparr>\<rparr>"

section \<open>Name translation\<close>

lemma length_be_bytes: "length (be_bytes w) = 4"
  by (simp add: be_bytes_def)

lemma length_state_bytes: "length (state_bytes s) = 32"
  by (cases s rule: state_bytes.cases) (simp add: length_be_bytes)

lemma length_Sum256: "length (Sum256 data) = 32"
  by (simp add: Sum256_def length_state_bytes)

lemma length_EncodeToString: "length (EncodeToString src) = 2 * length src"
  by (induction src) (simp_all add: EncodeToString_def)

lemma length_hex_digest: "length (take 10 (EncodeToString (Sum256 data))) = 10"
  by (simp add: length_EncodeToString length_Sum256)

lemma Join_five:
  "Join [a, b, c, d, e] sep = a @ sep @ b @ sep @ c @ sep @ d @ sep @ e"
  by simp

text \<open>
  Claim C1. For every name, namespace and suffix, \<open>PhysicalName\<close> is the dash-join of
  name, "x", namespace, "x" and the suffix when that string has at most 63 bytes; otherwise
  it is the first 52 bytes of the joined string, then "-", then the first 10 characters of
  the hexadecimal SHA-256 digest of the joined string.
\<close>

theorem PhysicalName_spec:
  "Join [name, ''x'', namespace, ''x'', Suffix g] ''-''
     = name @ ''-x-'' @ namespace @ ''-x-'' @ Suffix g
   \<and> PhysicalName g name namespace =
       (if length (Join [name, ''x'', namespace, ''x'', Suffix g] ''-'') \<le> 63
        then Join [name, ''x'', namespace, ''x'', Suffix g] ''-''
        else take 52 (Join [name, ''x'', namespace, ''x'', Suffix g] ''-'') @ ''-''
               @ take 10 (EncodeToString
                            (Sum256 (Join [name, ''x'', namespace, ''x'', Suffix g] ''-''))))"
  by (simp add: PhysicalName_def SafeConcatName_def Let_def)

theorem PhysicalName_spec_witness:
  "PhysicalName initial_vars ''test-secret'' ''test'' = ''test-secret-x-test-x-suffix''
   \<and> PhysicalName initial_vars ''a-very-long-name-for-a-secret-that-exceeds-the-limit''
         ''some-namespace''
       = ''a-very-long-name-for-a-secret-that-exceeds-the-limit-''
         @ take 10 (EncodeToString (Sum256
             (''a-very-long-name-for-a-secret-that-exceeds-the-limit''
              @ ''-x-some-namespace-x-suffix'')))"
  using PhysicalName_spec [of "''test-secret''" "''test''" initial_vars]
    PhysicalName_spec [of "''a-very-long-name-for-a-secret-that-exceeds-the-limit''"
      "''some-namespace''" initial_vars]
  by (simp add: initial_vars_def)

text \<open>
  The same name with the digest computed: the SHA-256 digest of the joined string starts
  with a5d600a160.
\<close>

lemma PhysicalName_hashed_example:
  "PhysicalName initial_vars ''a-very-long-name-for-a-secret-that-exceeds-the-limit''
     ''some-namespace''
     = ''a-very-long-name-for-a-secret-that-exceeds-the-limit-a5d600a160''"
  by code_simp

text \<open>
  Claim C9. The physical name never has more than 63 bytes, and has exactly 63 when the
  joined string has more than 63.
\<close>

theorem PhysicalName_length:
  "length (PhysicalName g name namespace) \<le> 63
   \<and> (63 < length (Join [name, ''x'', namespace, ''x'', Suffix g] ''-'')
        \<longrightarrow> length (PhysicalName g name namespace) = 63)"
proof -
  define joined where "joined = Join [name, ''x'', namespace, ''x'', Suffix g] ''-''"
  have name_eq: "PhysicalName g name namespace =
      (if 63 < length joined
       then take 52 joined @ ''-'' @ take 10 (EncodeToString (Sum256 joined))
       else joined)"
    by (simp add: PhysicalName_def SafeConcatName_def Let_def joined_def)
  show ?thesis
  proof (cases "63 < length joined")
    case True
    then have "length (take 52 joined) = 52"
      by simp
    then have "length (PhysicalName g name namespace) = 63"
      using True length_hex_digest [of joined] by (simp add: name_eq)
    then show ?thesis
      by simp
  next
    case False
    then show ?thesis
      by (simp add: name_eq joined_def)
  qed
qed

theorem PhysicalName_length_witness:
  "63 < length (Join [''a-very-long-name-for-a-secret-that-exceeds-the-limit'', ''x'',
                      ''some-namespace'', ''x'', Suffix initial_vars] ''-'')
   \<and> length (PhysicalName initial_vars
               ''a-very-long-name-for-a-secret-that-exceeds-the-limit'' ''some-namespace'') = 63
   \<and> length (PhysicalName initial_vars ''test-secret'' ''test'') \<le> 63"
  using PhysicalName_length [of initial_vars
      "''a-very-long-name-for-a-secret-that-exceeds-the-limit''" "''some-namespace''"]
    PhysicalName_length [of initial_vars "''test-secret''" "''test''"]
  by (simp add: initial_vars_def)


section \<open>Object metadata\<close>

text \<open>
  Claim C8. \<open>ResetObjectMetadata\<close> is idempotent: applying it twice gives the same metadata
  as applying it once.
\<close>

theorem ResetObjectMetadata_idempotent:
  "ResetObjectMetadata (ResetObjectMetadata obj) = ResetObjectMetadata obj"
  by (simp add: ResetObjectMetadata_def)

text \<open>
  Claim C10. \<open>ResetObjectMetadata\<close> leaves name, namespace and annotations as they are, and
  every other field of the metadata has the cleared value it sets.
\<close>

theorem ResetObjectMetadata_frame:
  "ObjectMeta.Name (ResetObjectMetadata obj) = ObjectMeta.Name obj
   \<and> Namespace (ResetObjectMetadata obj) = Namespace obj
   \<and> Annotations (ResetObjectMetadata obj) = Annotations obj
   \<and> ResetObjectMetadata obj =
       \<lparr>ObjectMeta.Name = ObjectMeta.Name obj,
        GenerateName = [],
        Namespace = Namespace obj,
        SelfLink = [],
        ObjectMeta.UID = [],
        ResourceVersion = [],
        Generation = 0,
        CreationTimestamp = zero_Time,
        DeletionTimestamp = None,
        DeletionGracePeriodSeconds = None,
        Labels = None,
        Annotations = Annotations obj,
        OwnerReferences = None,
        Finalizers = None,
        ClusterName = [],
        ManagedFields = None\<rparr>"
  by (cases obj) (simp add: ResetObjectMetadata_def)

text \<open>
  Claim C2. For an object with metadata, \<open>SetupMetadata\<close> returns the object with
  generateName, selfLink, UID, resourceVersion, generation, both timestamps,
  deletionGracePeriodSeconds, finalizers, cluster name and managed fields cleared; its
  labels are exactly the marker label with the suffix as value; its name is the physical
  name of the original name and namespace; its namespace is the target namespace; its
  annotations and the rest of the object are unchanged; and its owner references are the
  single reference to the owning statefulset when one is set and nil otherwise. For an
  object without metadata the error of \<open>meta.Accessor\<close> is returned.
\<close>

theorem SetupMetadata_spec:
  "SetupMetadata g targetNamespace (MetaObject m body) =
     Inr (MetaObject
       \<lparr>ObjectMeta.Name = PhysicalName g (ObjectMeta.Name m) (Namespace m),
        GenerateName = [],
        Namespace = targetNamespace,
        SelfLink = [],
        ObjectMeta.UID = [],
        ResourceVersion = [],
        Generation = 0,
        CreationTimestamp = zero_Time,
        DeletionTimestamp = None,
        DeletionGracePeriodSeconds = None,
        Labels = Some [MarkerLabel g \<mapsto> Suffix g],
        Annotations = Annotations m,
        OwnerReferences =
          (case OwningStatefulSet g of
             None \<Rightarrow> None
           | Some s \<Rightarrow>
               Some [\<lparr>APIVersion = ''apps/v1'',
                      Kind = ''StatefulSet'',
                      OwnerReference.Name = ObjectMeta.Name (StatefulSet.ObjectMeta s),
                      OwnerReference.UID = ObjectMeta.UID (StatefulSet.ObjectMeta s),
                      Controller = None,
                      BlockOwnerDeletion = None\<rparr>]),
        Finalizers = None,
        ClusterName = [],
        ManagedFields = None\<rparr> body)
   \<and> SetupMetadata g targetNamespace (PlainObject body) = Inl ErrNotObject"
  by (cases m)
     (simp add: SetupMetadata_def initMetadata_def ResetObjectMetadata_def Let_def
        owning_reference_def GroupVersion_String_def appsv1_SchemeGroupVersion_def
      split: option.split)

theorem SetupMetadata_spec_witness:
  "SetupMetadata (initial_vars\<lparr>OwningStatefulSet := Some ex_sts\<rparr>) ''host-namespace-1''
     (MetaObject
        (empty_ObjectMeta\<lparr>ObjectMeta.Name := ''test-secret'', Namespace := ''test'',
           ObjectMeta.UID := ''abcd'', ResourceVersion := ''42'', Generation := 7,
           Labels := Some [''app'' \<mapsto> ''web''],
           Annotations := Some [''note'' \<mapsto> ''kept''],
           Finalizers := Some [''keep'']\<rparr>) ())
   = Inr (MetaObject
        (empty_ObjectMeta\<lparr>ObjectMeta.Name := ''test-secret-x-test-x-suffix'',
           Namespace := ''host-namespace-1'',
           Labels := Some [''vcluster.loft.sh/managed-by'' \<mapsto> ''suffix''],
           Annotations := Some [''note'' \<mapsto> ''kept''],
           OwnerReferences :=
             Some [\<lparr>APIVersion = ''apps/v1'', Kind = ''StatefulSet'',
                    OwnerReference.Name = ''vcluster-1'', OwnerReference.UID = ''1234'',
                    Controller = None, BlockOwnerDeletion = None\<rparr>]\<rparr>) ())"
  using SetupMetadata_spec [of "initial_vars\<lparr>OwningStatefulSet := Some ex_sts\<rparr>"
      "''host-namespace-1''"
      "empty_ObjectMeta\<lparr>ObjectMeta.Name := ''test-secret'', Namespace := ''test'',
           ObjectMeta.UID := ''abcd'', ResourceVersion := ''42'', Generation := 7,
           Labels := Some [''app'' \<mapsto> ''web''],
           Annotations := Some [''note'' \<mapsto> ''kept''],
           Finalizers := Some [''keep'']\<rparr>" "()"]
  by (simp add: initial_vars_def ex_sts_def empty_ObjectMeta_def PhysicalName_def
        SafeConcatName_def Let_def)

text \<open>
  What \<open>IsManaged\<close> computes: the object has metadata with a non-nil label map, and the
  marker label is either present with the suffix as value, or absent while the suffix is
  the empty string (a read of a missing key yields the empty string).
\<close>

lemma IsManaged_iff:
  "IsManaged g obj \<longleftrightarrow>
     (\<exists>m body labels. obj = MetaObject m body \<and> Labels m = Some labels
        \<and> (labels (MarkerLabel g) = Some (Suffix g)
            \<or> labels (MarkerLabel g) = None \<and> Suffix g = []))"
  by (cases obj) (auto simp: IsManaged_def map_index_def split: option.splits)

lemma IsManaged_nonempty_suffix:
  "Suffix g \<noteq> [] \<Longrightarrow>
   IsManaged g obj \<longleftrightarrow>
     (\<exists>m body labels. obj = MetaObject m body \<and> Labels m = Some labels
        \<and> labels (MarkerLabel g) = Some (Suffix g))"
  by (simp add: IsManaged_iff)

text \<open>
  Claim C7 says that \<open>IsManaged\<close> holds exactly of the objects that carry the marker label
  with the suffix as value. With the empty string as suffix, \<open>IsManaged\<close> holds of an
  object whose labels do not include the marker label.
\<close>

theorem IsManaged_empty_suffix:
  "IsManaged (initial_vars\<lparr>Suffix := []\<rparr>)
     (MetaObject (empty_ObjectMeta\<lparr>Labels := Some [''app'' \<mapsto> ''web'']\<rparr>) ())
   \<and> [''app'' \<mapsto> ''web''] (MarkerLabel (initial_vars\<lparr>Suffix := []\<rparr>)) = None"
  by (simp add: IsManaged_def initial_vars_def empty_ObjectMeta_def map_index_def)

section \<open>Secret references of a pod\<close>

subsection \<open>UniqueSlice keeps the first occurrence of every non-empty entry\<close>

lemma UniqueSlice_loop_uniq:
  "UniqueSlice_loop xs keys list = list @ uniq (dom keys) xs"
proof (induction xs arbitrary: keys list)
  case Nil
  show ?case by simp
next
  case (Cons x xs)
  show ?case
  proof (cases "x = []")
    case True
    then show ?thesis by (simp add: Cons.IH)
  next
    case False
    show ?thesis
    proof (cases "keys x")
      case None
      then have notin: "x \<notin> dom keys" by (simp add: domIff)
      have "UniqueSlice_loop (x # xs) keys list
              = UniqueSlice_loop xs (keys(x \<mapsto> True)) (list @ [x])"
        using False None by simp
      also have "\<dots> = (list @ [x]) @ uniq (dom (keys(x \<mapsto> True))) xs"
        by (rule Cons.IH)
      also have "dom (keys(x \<mapsto> True)) = insert x (dom keys)"
        by simp
      also have "(list @ [x]) @ uniq (insert x (dom keys)) xs = list @ uniq (dom keys) (x # xs)"
        using False notin by simp
      finally show ?thesis .
    next
      case (Some v)
      then have "x \<in> dom keys" by (simp add: domIff)
      with False Some show ?thesis by (simp add: Cons.IH)
    qed
  qed
qed

lemma UniqueSlice_uniq: "UniqueSlice xs = uniq {} xs"
  by (simp add: UniqueSlice_def UniqueSlice_loop_uniq)

lemma set_uniq: "set (uniq seen xs) = set xs - seen - {[]}"
  by (induction xs arbitrary: seen) auto

lemma distinct_uniq: "distinct (uniq seen xs)"
  by (induction xs arbitrary: seen) (auto simp: set_uniq)

lemma uniq_filter: "uniq seen xs = filter (\<lambda>x. x \<notin> seen) (uniq {} xs)"
proof (induction xs arbitrary: seen)
  case Nil
  show ?case by simp
next
  case (Cons x xs)
  have a: "uniq (insert x seen) xs = filter (\<lambda>y. y \<notin> insert x seen) (uniq {} xs)"
    by (rule Cons.IH)
  have b: "uniq {x} xs = filter (\<lambda>y. y \<notin> {x}) (uniq {} xs)"
    by (rule Cons.IH)
  have c: "uniq seen xs = filter (\<lambda>y. y \<notin> seen) (uniq {} xs)"
    by (rule Cons.IH)
  show ?case
  proof (cases "x = [] \<or> x \<in> seen")
    case True
    then show ?thesis
      using b c by (auto intro: filter_cong)
  next
    case False
    then show ?thesis
      using a b by (auto intro: filter_cong)
  qed
qed

lemma uniq_insert_Nil: "uniq (insert [] seen) xs = uniq seen xs"
proof (induction xs arbitrary: seen)
  case Nil
  show ?case by simp
next
  case (Cons x xs)
  have "insert x (insert [] seen) = insert [] (insert x seen)"
    by (rule insert_commute)
  then have "uniq (insert x (insert [] seen)) xs = uniq (insert x seen) xs"
    using Cons.IH [of "insert x seen"] by simp
  then show ?case
    by (simp add: Cons.IH)
qed

lemma uniq_append: "uniq seen (xs @ ys) = uniq seen xs @ uniq (seen \<union> set xs) ys"
proof (induction xs arbitrary: seen)
  case Nil
  show ?case by simp
next
  case (Cons x xs)
  show ?case
  proof (cases "x = []")
    case True
    then show ?thesis
      using uniq_insert_Nil [of "seen \<union> set xs" ys] by (simp add: Cons.IH)
  next
    case False
    then show ?thesis
      by (simp add: Cons.IH insert_absorb)
  qed
qed

lemma UniqueSlice_append:
  "UniqueSlice (xs @ ys) = UniqueSlice xs @ filter (\<lambda>y. y \<notin> set xs) (UniqueSlice ys)"
  using uniq_filter [of "set xs" ys] by (simp add: UniqueSlice_uniq uniq_append)

lemma UniqueSlice_distinct: "distinct (UniqueSlice xs)"
  by (simp add: UniqueSlice_uniq distinct_uniq)

lemma UniqueSlice_set: "set (UniqueSlice xs) = set xs - {[]}"
  by (simp add: UniqueSlice_uniq set_uniq)

subsection \<open>The loops of SecretNamesFromPod\<close>

lemma foldl_append_concat:
  "foldl (\<lambda>acc x. acc @ f x) acc xs = acc @ concat (map f xs)"
  by (induction xs arbitrary: acc) simp_all

lemma foldl_append_map:
  "foldl (\<lambda>acc x. acc @ [f x]) acc xs = acc @ map f xs"
  by (induction xs arbitrary: acc) simp_all

lemma volume_step_append:
  "volume_step ns acc v =
     acc @ (case Secret v of None \<Rightarrow> [] | Some src \<Rightarrow> [ns @ ''/'' @ SecretName src])"
  by (simp add: volume_step_def split: option.split)

lemma foldl_volume_step:
  "foldl (volume_step ns) acc vs =
     acc @ concat (map (\<lambda>v. case Secret v of None \<Rightarrow> []
                              | Some src \<Rightarrow> [ns @ ''/'' @ SecretName src]) vs)"
  by (induction vs arbitrary: acc) (simp_all add: volume_step_append)

lemma collect_secrets_parts:
  "collect_secrets pod = container_secrets pod @ pull_secrets pod @ volume_secrets pod"
  by (simp add: collect_secrets_def container_secrets_def pull_secrets_def
      volume_secrets_def Let_def foldl_append_concat foldl_append_map foldl_volume_step)

lemma env_step_append: "env_step ns acc e = acc @ env_step ns [] e"
  by (simp add: env_step_def split: option.split)

lemma envFrom_step_append: "envFrom_step ns acc e = acc @ envFrom_step ns [] e"
  by (simp add: envFrom_step_def split: option.split)

lemma foldl_env_step:
  "foldl (env_step ns) acc es = acc @ concat (map (env_step ns []) es)"
proof (induction es arbitrary: acc)
  case Nil
  show ?case by simp
next
  case (Cons e es)
  show ?case
    using env_step_append [of ns acc e] by (simp add: Cons.IH)
qed

lemma foldl_envFrom_step:
  "foldl (envFrom_step ns) acc es = acc @ concat (map (envFrom_step ns []) es)"
proof (induction es arbitrary: acc)
  case Nil
  show ?case by simp
next
  case (Cons e es)
  show ?case
    using envFrom_step_append [of ns acc e] by (simp add: Cons.IH)
qed

lemma no_secret_env_step: "no_secret_env e \<Longrightarrow> env_step ns [] e = []"
  by (auto simp: no_secret_env_def env_step_def split: option.splits)

lemma no_secret_envFrom_step: "no_secret_envFrom e \<Longrightarrow> envFrom_step ns [] e = []"
  by (auto simp: no_secret_envFrom_def envFrom_step_def split: option.splits)

lemma no_secret_envs: "list_all no_secret_env es \<Longrightarrow> concat (map (env_step ns []) es) = []"
  by (induction es) (simp_all add: no_secret_env_step)

lemma no_secret_envFroms:
  "list_all no_secret_envFrom es \<Longrightarrow> concat (map (envFrom_step ns []) es) = []"
  by (induction es) (simp_all add: no_secret_envFrom_step)

lemma SecretNamesFromContainer_parts:
  "SecretNamesFromContainer ns c =
     concat (map (env_step ns []) (Container.Env c))
     @ concat (map (envFrom_step ns []) (Container.EnvFrom c))"
  by (simp add: SecretNamesFromContainer_def Let_def foldl_env_step foldl_envFrom_step)

lemma SecretNamesFromEphemeralContainer_parts:
  "SecretNamesFromEphemeralContainer ns c =
     concat (map (env_step ns []) (EphemeralContainer.Env c))
     @ concat (map (envFrom_step ns []) (EphemeralContainer.EnvFrom c))"
  by (simp add: SecretNamesFromEphemeralContainer_def Let_def foldl_env_step
      foldl_envFrom_step)

lemma no_secret_container_names:
  "no_secret_container c \<Longrightarrow> SecretNamesFromContainer ns c = []"
  by (simp add: no_secret_container_def SecretNamesFromContainer_parts no_secret_envs
      no_secret_envFroms)

lemma no_secret_ephemeral_names:
  "no_secret_ephemeral c \<Longrightarrow> SecretNamesFromEphemeralContainer ns c = []"
  by (simp add: no_secret_ephemeral_def SecretNamesFromEphemeralContainer_parts
      no_secret_envs no_secret_envFroms)

lemma no_secret_containers:
  "list_all no_secret_container cs \<Longrightarrow> concat (map (SecretNamesFromContainer ns) cs) = []"
  by (induction cs) (simp_all add: no_secret_container_names)

lemma no_secret_ephemerals:
  "list_all no_secret_ephemeral cs \<Longrightarrow>
   concat (map (SecretNamesFromEphemeralContainer ns) cs) = []"
  by (induction cs) (simp_all add: no_secret_ephemeral_names)

lemma no_secret_volumes:
  "list_all no_secret_volume vs \<Longrightarrow>
   concat (map (\<lambda>v. case Secret v of None \<Rightarrow> [] | Some src \<Rightarrow> [ns @ ''/'' @ SecretName src]) vs)
     = []"
  by (induction vs) (simp_all add: no_secret_volume_def)

lemma secret_env_named_step:
  "secret_env_named a e \<Longrightarrow> a \<noteq> [] \<Longrightarrow> env_step ns [] e = [ns @ ''/'' @ a]"
  by (auto simp: secret_env_named_def env_step_def split: option.splits)

lemma secret_volume_named_step:
  "secret_volume_named b v \<Longrightarrow>
   (case Secret v of None \<Rightarrow> [] | Some src \<Rightarrow> [ns @ ''/'' @ SecretName src]) = [ns @ ''/'' @ b]"
  by (auto simp: secret_volume_named_def split: option.splits)

text \<open>
  For every pod, the result lists the references of the containers first, then the image
  pull secrets not among them, then the volume secrets not among either.
\<close>

lemma SecretNamesFromPod_order:
  "SecretNamesFromPod pod =
     UniqueSlice (container_secrets pod)
     @ filter (\<lambda>x. x \<notin> set (container_secrets pod)) (UniqueSlice (pull_secrets pod))
     @ filter (\<lambda>x. x \<notin> set (container_secrets pod) \<and> x \<notin> set (pull_secrets pod))
         (UniqueSlice (volume_secrets pod))"
  by (simp add: SecretNamesFromPod_def collect_secrets_parts UniqueSlice_append conj_commute)

lemma env_then_volume_names:
  assumes ns: "Namespace (Pod.ObjectMeta pod) = ''test''"
    and cs: "Containers (Pod.Spec pod) = cs1 @ [c] @ cs2"
    and cs1: "list_all no_secret_container cs1"
    and cs2: "list_all no_secret_container cs2"
    and es: "Container.Env c = es1 @ [e] @ es2"
    and es1: "list_all no_secret_env es1"
    and es2: "list_all no_secret_env es2"
    and e: "secret_env_named ''a'' e"
    and fs: "list_all no_secret_envFrom (Container.EnvFrom c)"
    and ics: "list_all no_secret_container (InitContainers (Pod.Spec pod))"
    and ecs: "list_all no_secret_ephemeral (EphemeralContainers (Pod.Spec pod))"
    and ips: "ImagePullSecrets (Pod.Spec pod) = []"
    and vs: "Volumes (Pod.Spec pod) = vs1 @ [v] @ vs2"
    and vs1: "list_all no_secret_volume vs1"
    and vs2: "list_all no_secret_volume vs2"
    and v: "secret_volume_named ''b'' v"
  shows "SecretNamesFromPod pod = [''test/a'', ''test/b'']"
proof -
  have "SecretNamesFromContainer ''test'' c = [''test/a'']"
    using es es1 es2 e fs
    by (simp add: SecretNamesFromContainer_parts no_secret_envs no_secret_envFroms
        secret_env_named_step)
  then have c_part: "container_secrets pod = [''test/a'']"
    using ns cs cs1 cs2 ics ecs
    by (simp add: container_secrets_def no_secret_containers no_secret_ephemerals)
  have p_part: "pull_secrets pod = []"
    using ips by (simp add: pull_secrets_def)
  have v_part: "volume_secrets pod = [''test/b'']"
    using ns vs vs1 vs2 v
    by (simp add: volume_secrets_def no_secret_volumes secret_volume_named_step)
  have "collect_secrets pod = [''test/a'', ''test/b'']"
    by (simp add: collect_secrets_parts c_part p_part v_part)
  then show ?thesis
    by (simp add: SecretNamesFromPod_def UniqueSlice_def)
qed

text \<open>
  Claim C5. A pod in namespace "test" whose only secret references are one environment
  entry of a main container with \<open>secretKeyRef.name = a\<close> and one volume with
  \<open>secret.secretName = b\<close> yields exactly "test/a" followed by "test/b". For every pod,
  whatever it references, the result lists the references of the containers (main, then
  init, then ephemeral) first, each once, then the image pull secrets not already listed,
  then the volume secrets not already listed.
\<close>

theorem SecretNamesFromPod_env_then_volume:
  "(Namespace (Pod.ObjectMeta pod) = ''test''
      \<and> Containers (Pod.Spec pod) = cs1 @ [c] @ cs2
      \<and> list_all no_secret_container cs1
      \<and> list_all no_secret_container cs2
      \<and> Container.Env c = es1 @ [e] @ es2
      \<and> list_all no_secret_env es1
      \<and> list_all no_secret_env es2
      \<and> secret_env_named ''a'' e
      \<and> list_all no_secret_envFrom (Container.EnvFrom c)
      \<and> list_all no_secret_container (InitContainers (Pod.Spec pod))
      \<and> list_all no_secret_ephemeral (EphemeralContainers (Pod.Spec pod))
      \<and> ImagePullSecrets (Pod.Spec pod) = []
      \<and> Volumes (Pod.Spec pod) = vs1 @ [v] @ vs2
      \<and> list_all no_secret_volume vs1
      \<and> list_all no_secret_volume vs2
      \<and> secret_volume_named ''b'' v
    \<longrightarrow> SecretNamesFromPod pod = [''test/a'', ''test/b''])
   \<and> SecretNamesFromPod pod =
       UniqueSlice (container_secrets pod)
       @ filter (\<lambda>x. x \<notin> set (container_secrets pod)) (UniqueSlice (pull_secrets pod))
       @ filter (\<lambda>x. x \<notin> set (container_secrets pod) \<and> x \<notin> set (pull_secrets pod))
           (UniqueSlice (volume_secrets pod))"
proof (intro conjI impI)
  assume "Namespace (Pod.ObjectMeta pod) = ''test''
      \<and> Containers (Pod.Spec pod) = cs1 @ [c] @ cs2
      \<and> list_all no_secret_container cs1
      \<and> list_all no_secret_container cs2
      \<and> Container.Env c = es1 @ [e] @ es2
      \<and> list_all no_secret_env es1
      \<and> list_all no_secret_env es2
      \<and> secret_env_named ''a'' e
      \<and> list_all no_secret_envFrom (Container.EnvFrom c)
      \<and> list_all no_secret_container (InitContainers (Pod.Spec pod))
      \<and> list_all no_secret_ephemeral (EphemeralContainers (Pod.Spec pod))
      \<and> ImagePullSecrets (Pod.Spec pod) = []
      \<and> Volumes (Pod.Spec pod) = vs1 @ [v] @ vs2
      \<and> list_all no_secret_volume vs1
      \<and> list_all no_secret_volume vs2
      \<and> secret_volume_named ''b'' v"
  then show "SecretNamesFromPod pod = [''test/a'', ''test/b'']"
    by (elim conjE) (rule env_then_volume_names)
next
  show "SecretNamesFromPod pod =
       UniqueSlice (container_secrets pod)
       @ filter (\<lambda>x. x \<notin> set (container_secrets pod)) (UniqueSlice (pull_secrets pod))
       @ filter (\<lambda>x. x \<notin> set (container_secrets pod) \<and> x \<notin> set (pull_secrets pod))
           (UniqueSlice (volume_secrets pod))"
    by (rule SecretNamesFromPod_order)
qed

text \<open>
  The pod of the test, and a pod that references a in a main container, i in an init
  container, p and i as image pull secrets, and b and a in volumes.
\<close>

theorem SecretNamesFromPod_env_then_volume_witness:
  "SecretNamesFromPod test_pod = [''test/a'', ''test/b'']
   \<and> SecretNamesFromPod mixed_pod = [''test/a'', ''test/i'', ''test/p'', ''test/b'']"
proof -
  have scenario: "SecretNamesFromPod test_pod = [''test/a'', ''test/b'']"
    using SecretNamesFromPod_env_then_volume
      [where pod = test_pod and ?cs1.0 = "[]" and ?cs2.0 = "[]"
         and c = "hd (Containers (Pod.Spec test_pod))"
         and ?es1.0 = "[]" and ?es2.0 = "[]"
         and e = "hd (Container.Env (hd (Containers (Pod.Spec test_pod))))"
         and ?vs1.0 = "[]" and ?vs2.0 = "[]"
         and v = "hd (Volumes (Pod.Spec test_pod))", THEN conjunct1]
    by (simp add: test_pod_def empty_ObjectMeta_def secret_env_named_def
        secret_volume_named_def)
  have "container_secrets mixed_pod = [''test/a'', ''test/i'']"
    by (simp add: container_secrets_def SecretNamesFromContainer_def env_step_def
        envFrom_step_def mixed_pod_def empty_ObjectMeta_def Let_def)
  moreover have "pull_secrets mixed_pod = [''test/p'', ''test/i'']"
    by (simp add: pull_secrets_def mixed_pod_def empty_ObjectMeta_def)
  moreover have "volume_secrets mixed_pod = [''test/b'', ''test/a'']"
    by (simp add: volume_secrets_def mixed_pod_def empty_ObjectMeta_def)
  ultimately have mixed:
    "SecretNamesFromPod mixed_pod = [''test/a'', ''test/i'', ''test/p'', ''test/b'']"
    using SecretNamesFromPod_env_then_volume [where pod = mixed_pod, THEN conjunct2]
    by (simp add: UniqueSlice_def env_step_def envFrom_step_def mixed_pod_def
        empty_ObjectMeta_def)
  from scenario mixed show ?thesis
    by (rule conjI)
qed

text \<open>
  The result of \<open>SecretNamesFromPod\<close> has no duplicates, every entry is the pod's namespace,
  a slash and a name, and the names that come from containers are not empty.
\<close>

lemma SecretNamesFromPod_distinct: "distinct (SecretNamesFromPod pod)"
  by (simp add: SecretNamesFromPod_def UniqueSlice_distinct)

lemma env_step_qualified:
  "x \<in> set (env_step ns [] e) \<Longrightarrow> \<exists>n. n \<noteq> [] \<and> x = ns @ ''/'' @ n"
  by (auto simp: env_step_def split: option.splits if_splits)

lemma envFrom_step_qualified:
  "x \<in> set (envFrom_step ns [] e) \<Longrightarrow> \<exists>n. n \<noteq> [] \<and> x = ns @ ''/'' @ n"
  by (auto simp: envFrom_step_def split: option.splits if_splits)

lemma container_secrets_qualified:
  assumes "x \<in> set (container_secrets pod)"
  shows "\<exists>n. n \<noteq> [] \<and> x = Namespace (Pod.ObjectMeta pod) @ ''/'' @ n"
  using assms env_step_qualified envFrom_step_qualified
  by (auto simp: container_secrets_def SecretNamesFromContainer_parts
      SecretNamesFromEphemeralContainer_parts)

lemma SecretNamesFromPod_qualified:
  assumes "x \<in> set (SecretNamesFromPod pod)"
  shows "\<exists>n. x = Namespace (Pod.ObjectMeta pod) @ ''/'' @ n"
proof -
  from assms have "x \<in> set (collect_secrets pod)"
    by (simp add: SecretNamesFromPod_def UniqueSlice_set)
  then consider "x \<in> set (container_secrets pod)" | "x \<in> set (pull_secrets pod)"
    | "x \<in> set (volume_secrets pod)"
    by (auto simp: collect_secrets_parts)
  then show ?thesis
  proof cases
    case 1
    then show ?thesis
      using container_secrets_qualified by blast
  next
    case 2
    then show ?thesis
      by (auto simp: pull_secrets_def)
  next
    case 3
    then show ?thesis
      by (auto simp: volume_secrets_def split: option.splits)
  qed
qed

text \<open>
  Claim C4 says that no entry of the result has an empty secret name, also for image pull
  secrets and volume secrets. The names of image pull secrets and of volume secrets are
  not checked, and the entry "test/" is never the empty string that \<open>UniqueSlice\<close> drops:
  a pod with an image pull secret of empty name, and a pod with a secret volume of empty
  secret name, both yield the entry "test/".
\<close>

theorem SecretNamesFromPod_empty_name:
  "SecretNamesFromPod pull_secret_pod = [''test/'']
   \<and> SecretNamesFromPod volume_secret_pod = [''test/'']"
  by (simp add: SecretNamesFromPod_def collect_secrets_def pull_secret_pod_def
      volume_secret_pod_def empty_ObjectMeta_def volume_step_def UniqueSlice_def Let_def)

section \<open>Redirect resources\<close>

text \<open>
  Claim C3 says that every pair of a resource in nodes, pods, services and a subresource
  in proxy, portforward, exec, attach, log is in the list of redirect resources. The pair
  nodes/exec is in that cross product and not in the list.
\<close>

theorem redirect_pairs_missing:
  "(''nodes'', ''exec'') \<in> set (List.product redirect_resource_names redirect_subresource_names)
   \<and> (''nodes'', ''exec'') \<notin> set redirect_pairs"
  by (simp add: redirect_pairs_def redirectResources_def resource_pair_def WithResource_def
      redirect_resource_names_def redirect_subresource_names_def)

text \<open>
  Claim C3 as amended. The list of redirect resources has exactly seven entries, all of
  the core group, version v1, with verb "*": nodes/proxy, pods/portforward, pods/exec,
  pods/attach, pods/log, pods/proxy and services/proxy. These are seven of the fifteen
  pairs of the cross product; the other eight are not in the list.
\<close>

theorem redirect_pairs_exact:
  "redirect_pairs =
     [(''nodes'', ''proxy''), (''pods'', ''portforward''), (''pods'', ''exec''),
      (''pods'', ''attach''), (''pods'', ''log''), (''pods'', ''proxy''),
      (''services'', ''proxy'')]
   \<and> map Verb redirectResources = [''*'', ''*'', ''*'', ''*'', ''*'', ''*'', ''*'']
   \<and> map (\<lambda>r. (GroupVersionResource.Group (GroupVersionResource r),
                 GroupVersionResource.Version (GroupVersionResource r))) redirectResources
       = [([], ''v1''), ([], ''v1''), ([], ''v1''), ([], ''v1''), ([], ''v1''), ([], ''v1''),
          ([], ''v1'')]
   \<and> filter (\<lambda>p. p \<in> set redirect_pairs)
        (List.product redirect_resource_names redirect_subresource_names)
       = [(''nodes'', ''proxy''), (''pods'', ''proxy''), (''pods'', ''portforward''),
          (''pods'', ''exec''), (''pods'', ''attach''), (''pods'', ''log''),
          (''services'', ''proxy'')]
   \<and> filter (\<lambda>p. p \<notin> set redirect_pairs)
        (List.product redirect_resource_names redirect_subresource_names)
       = [(''nodes'', ''portforward''), (''nodes'', ''exec''), (''nodes'', ''attach''),
          (''nodes'', ''log''), (''services'', ''portforward''), (''services'', ''exec''),
          (''services'', ''attach''), (''services'', ''log'')]"
  by (simp add: redirect_pairs_def redirectResources_def resource_pair_def WithResource_def
      corev1_SchemeGroupVersion_def redirect_resource_names_def redirect_subresource_names_def)

section \<open>The service CIDR in the release values\<close>

lemma upt_all: "list_all P [0..<n] \<longleftrightarrow> (\<forall>k<n. P k)"
  by (auto simp: list_all_iff)

lemma first_occurrence_alt:
  "first_occurrence s sub pre post \<longleftrightarrow>
     s = pre @ sub @ post \<and> (\<forall>k<length pre. take (length sub) (drop k s) \<noteq> sub)"
  unfolding first_occurrence_def upt_all ..

lemma Index_from_first:
  "first_occurrence s sub pre post \<Longrightarrow> Index_from i s sub = int (i + length pre)"
proof (induction pre arbitrary: s i)
  case Nil
  then have s: "s = sub @ post"
    by (simp add: first_occurrence_def)
  show ?case
  proof (cases s)
    case Nil
    with s show ?thesis by simp
  next
    case (Cons c s')
    have "take (length sub) s = sub"
      by (simp add: s)
    with Cons show ?thesis by simp
  qed
next
  case (Cons x pre)
  from Cons.prems have s: "s = x # (pre @ sub @ post)"
    by (simp add: first_occurrence_alt)
  from Cons.prems have "\<forall>k<length (x # pre). take (length sub) (drop k s) \<noteq> sub"
    unfolding first_occurrence_alt by (rule conjunct2)
  then have early: "\<forall>k<Suc (length pre). take (length sub) (drop k s) \<noteq> sub"
    unfolding length_Cons .
  from early have "take (length sub) (drop 0 s) \<noteq> sub"
    by blast
  then have here: "take (length sub) (x # (pre @ sub @ post)) \<noteq> sub"
    by (simp add: s)
  have "\<forall>k<length pre. take (length sub) (drop k (pre @ sub @ post)) \<noteq> sub"
  proof (intro allI impI)
    fix k
    assume "k < length pre"
    then have "take (length sub) (drop (Suc k) s) \<noteq> sub"
      using early by (meson Suc_less_eq)
    then show "take (length sub) (drop k (pre @ sub @ post)) \<noteq> sub"
      by (simp add: s)
  qed
  then have "first_occurrence (pre @ sub @ post) sub pre post"
    unfolding first_occurrence_alt by simp
  then have "Index_from (Suc i) (pre @ sub @ post) sub = int (Suc i + length pre)"
    by (rule Cons.IH)
  with here show ?case
    by (simp add: s)
qed

lemma contains_alt:
  "contains s sub \<longleftrightarrow> (\<exists>k\<le>length s. take (length sub) (drop k s) = sub)"
proof -
  have "set [0..<Suc (length s)] = {k. k \<le> length s}"
    unfolding set_upt by auto
  then show ?thesis
    unfolding contains_def list_ex_iff by blast
qed

lemma Index_from_none:
  "\<not> contains s sub \<Longrightarrow> Index_from i s sub = - 1"
proof (induction s arbitrary: i)
  case Nil
  then show ?case
    unfolding contains_alt by auto
next
  case (Cons c s)
  from Cons.prems have no: "\<forall>k<Suc (Suc (length s)). take (length sub) (drop k (c # s)) \<noteq> sub"
    unfolding contains_alt by (auto simp: less_Suc_eq_le)
  from no have here: "take (length sub) (c # s) \<noteq> sub"
    by (metis drop0 zero_less_Suc)
  have "\<forall>k<Suc (length s). take (length sub) (drop k s) \<noteq> sub"
  proof (intro allI impI)
    fix k
    assume "k < Suc (length s)"
    then have "take (length sub) (drop (Suc k) (c # s)) \<noteq> sub"
      using no by (meson Suc_less_eq)
    then show "take (length sub) (drop k s) \<noteq> sub"
      by simp
  qed
  then have "\<not> contains s sub"
    unfolding contains_alt by (auto simp: less_Suc_eq_le)
  then have "Index_from (Suc i) s sub = - 1"
    by (rule Cons.IH)
  with here show ?case
    by simp
qed

lemma contains_iff: "contains s sub \<longleftrightarrow> (\<exists>pre post. s = pre @ sub @ post)"
proof
  assume "contains s sub"
  then obtain k where k: "k \<le> length s" and t: "take (length sub) (drop k s) = sub"
    unfolding contains_alt by blast
  have "drop k s = take (length sub) (drop k s) @ drop (length sub) (drop k s)"
    by (simp only: append_take_drop_id)
  with t have "drop k s = sub @ drop (length sub) (drop k s)"
    by simp
  then have "s = take k s @ sub @ drop (length sub) (drop k s)"
    by (metis append_take_drop_id)
  then show "\<exists>pre post. s = pre @ sub @ post"
    by blast
next
  assume "\<exists>pre post. s = pre @ sub @ post"
  then obtain pre post where s: "s = pre @ sub @ post"
    by blast
  then have "length pre \<le> length s" and "take (length sub) (drop (length pre) s) = sub"
    by simp_all
  then show "contains s sub"
    unfolding contains_alt by blast
qed

lemma first_occurrence_least:
  assumes "first_occurrence s sub pre post" and "s = p @ sub @ q"
  shows "length pre \<le> length p"
proof (rule ccontr)
  assume "\<not> length pre \<le> length p"
  then have "length p < length pre"
    by simp
  moreover from assms(1)
  have "\<forall>k<length pre. take (length sub) (drop k s) \<noteq> sub"
    unfolding first_occurrence_alt by (rule conjunct2)
  ultimately have "take (length sub) (drop (length p) s) \<noteq> sub"
    by blast
  moreover have "take (length sub) (drop (length p) s) = sub"
    by (simp add: assms(2))
  ultimately show False
    by contradiction
qed

lemma probe_cidr_created: "probe_cidr None = ([Warnf warn_no_cidr []], ''10.96.0.0/12'')"
  by (simp add: probe_cidr_def)

lemma probe_cidr_found:
  assumes "first_occurrence (Error e) errorMessageFind pre post"
  shows "probe_cidr (Some e) = ([], TrimSpace post)"
proof -
  have idx: "Index (Error e) errorMessageFind = int (length pre)"
    using Index_from_first [OF assms, of 0] by (simp add: Index_def)
  have msg: "Error e = pre @ errorMessageFind @ post"
    using assms by (simp add: first_occurrence_alt)
  have "drop (nat (int (length pre) + int (length errorMessageFind))) (Error e) = post"
    by (simp add: msg nat_add_distrib)
  then show ?thesis
    by (simp add: probe_cidr_def Let_def idx)
qed

lemma probe_cidr_other:
  assumes "\<not> contains (Error e) errorMessageFind"
  shows "probe_cidr (Some e) = ([Warnf (warn_no_cidr_in (Error e)) []], ''10.96.0.0/12'')"
  using Index_from_none [OF assms, of 0] by (simp add: probe_cidr_def Let_def Index_def)

lemma getReleaseValues_reached:
  assumes "ServerVersion c = Inr v"
    and "Atoi (replaceRegEx_ReplaceAllString (Minor v)) = Inr n"
    and "select_image (replaceRegEx_ReplaceAllString (Major v) @ ''.''
           @ replaceRegEx_ReplaceAllString (Minor v)) n = (log1, image', vs)"
    and "probe_cidr (Services_Create c ns test_service) = (log2, cidr)"
  shows "getReleaseValues c ns d =
           (log1 @ log2,
            Inr (build_values image' cidr (map_index (map_of baseArgsMap) vs) d))"
  using assms by (simp add: getReleaseValues_def Let_def)

text \<open>
  Claim C6. Let the server version be discovered and its minor number be parsed, so that
  the probe is made. If creating the test service succeeds, a warning is logged and the
  values are built with the CIDR 10.96.0.0/12. If it fails with a message in which the
  phrase \<open>errorMessageFind\<close> occurs, first after \<open>pre\<close> and followed by \<open>post\<close>, the values
  are built with \<open>post\<close> trimmed of white space. If it fails with a message that does not
  contain the phrase, a warning with the message is logged and the values are built with
  the CIDR 10.96.0.0/12.
\<close>

theorem getReleaseValues_cidr:
  assumes "ServerVersion c = Inr v"
    and "Atoi (replaceRegEx_ReplaceAllString (Minor v)) = Inr n"
    and "select_image (replaceRegEx_ReplaceAllString (Major v) @ ''.''
           @ replaceRegEx_ReplaceAllString (Minor v)) n = (log1, image', vs)"
  shows "(Services_Create c ns test_service = None \<longrightarrow>
            getReleaseValues c ns d =
              (log1 @ [Warnf warn_no_cidr []],
               Inr (build_values image' ''10.96.0.0/12''
                      (map_index (map_of baseArgsMap) vs) d)))
       \<and> (\<forall>e pre post.
            Services_Create c ns test_service = Some e
              \<and> first_occurrence (Error e) errorMessageFind pre post \<longrightarrow>
            getReleaseValues c ns d =
              (log1,
               Inr (build_values image' (TrimSpace post)
                      (map_index (map_of baseArgsMap) vs) d)))
       \<and> (\<forall>e.
            Services_Create c ns test_service = Some e
              \<and> \<not> contains (Error e) errorMessageFind \<longrightarrow>
            getReleaseValues c ns d =
              (log1 @ [Warnf (warn_no_cidr_in (Error e)) []],
               Inr (build_values image' ''10.96.0.0/12''
                      (map_index (map_of baseArgsMap) vs) d)))"
proof (intro conjI allI impI)
  assume "Services_Create c ns test_service = None"
  then have "probe_cidr (Services_Create c ns test_service)
               = ([Warnf warn_no_cidr []], ''10.96.0.0/12'')"
    by (simp add: probe_cidr_created)
  from getReleaseValues_reached [OF assms this]
  show "getReleaseValues c ns d =
          (log1 @ [Warnf warn_no_cidr []],
           Inr (build_values image' ''10.96.0.0/12'' (map_index (map_of baseArgsMap) vs) d))" .
next
  fix e pre post
  assume "Services_Create c ns test_service = Some e
            \<and> first_occurrence (Error e) errorMessageFind pre post"
  then have "probe_cidr (Services_Create c ns test_service) = ([], TrimSpace post)"
    using probe_cidr_found [of e pre post] by simp
  from getReleaseValues_reached [OF assms this, of d]
  have "getReleaseValues c ns d =
          (log1 @ [], Inr (build_values image' (TrimSpace post)
                             (map_index (map_of baseArgsMap) vs) d))" .
  then show "getReleaseValues c ns d =
          (log1, Inr (build_values image' (TrimSpace post)
                        (map_index (map_of baseArgsMap) vs) d))"
    by (simp only: append_Nil2)
next
  fix e
  assume "Services_Create c ns test_service = Some e
            \<and> \<not> contains (Error e) errorMessageFind"
  then have "probe_cidr (Services_Create c ns test_service)
               = ([Warnf (warn_no_cidr_in (Error e)) []], ''10.96.0.0/12'')"
    using probe_cidr_other [of e] by simp
  from getReleaseValues_reached [OF assms this]
  show "getReleaseValues c ns d =
          (log1 @ [Warnf (warn_no_cidr_in (Error e)) []],
           Inr (build_values image' ''10.96.0.0/12'' (map_index (map_of baseArgsMap) vs) d))" .
qed

theorem getReleaseValues_cidr_witness:
  "getReleaseValues client_created ''default'' False =
     ([Warnf warn_no_cidr []],
      Inr (''vcluster:\<newline>  image: rancher/k3s:v1.19.8-k3s1\<newline>  extraArgs:\<newline>''
           @ ''    - --service-cidr=10.96.0.0/12\<newline>\<newline>storage:\<newline>  size: 5Gi''))
   \<and> getReleaseValues client_range ''default'' False =
     ([],
      Inr (''vcluster:\<newline>  image: rancher/k3s:v1.19.8-k3s1\<newline>  extraArgs:\<newline>''
           @ ''    - --service-cidr=10.43.0.0/16\<newline>\<newline>storage:\<newline>  size: 5Gi''))
   \<and> getReleaseValues client_other ''default'' False =
     ([Warnf (warn_no_cidr_in (Error other_error)) []],
      Inr (''vcluster:\<newline>  image: rancher/k3s:v1.19.8-k3s1\<newline>  extraArgs:\<newline>''
           @ ''    - --service-cidr=10.96.0.0/12\<newline>\<newline>storage:\<newline>  size: 5Gi''))"
proof -
  have digits: "Atoi (replaceRegEx_ReplaceAllString (Minor ex_version)) = Inr 19"
    by code_simp
  have img: "select_image (replaceRegEx_ReplaceAllString (Major ex_version) @ ''.''
               @ replaceRegEx_ReplaceAllString (Minor ex_version)) 19
             = ([], ''rancher/k3s:v1.19.8-k3s1'', ''1.19'')"
    by code_simp
  have v1: "ServerVersion client_created = Inr ex_version"
    by (simp add: client_created_def)
  have v2: "ServerVersion client_range = Inr ex_version"
    by (simp add: client_range_def)
  have v3: "ServerVersion client_other = Inr ex_version"
    by (simp add: client_other_def)
  have p1: "Services_Create client_created ''default'' test_service = None"
    by (simp add: client_created_def)
  have p2: \<open>Services_Create client_range ''default'' test_service = Some range_error
      \<and> first_occurrence (Error range_error) errorMessageFind
          (''Service "test-service-x7k2p" is invalid: spec.clusterIP: ''
           @ ''Invalid value: "4.4.4.4": '') ''10.43.0.0/16''\<close>
    by code_simp
  have p3: "Services_Create client_other ''default'' test_service = Some other_error
      \<and> \<not> contains (Error other_error) errorMessageFind"
    by code_simp
  have b1: "build_values ''rancher/k3s:v1.19.8-k3s1'' ''10.96.0.0/12''
              (map_index (map_of baseArgsMap) ''1.19'') False
            = ''vcluster:\<newline>  image: rancher/k3s:v1.19.8-k3s1\<newline>  extraArgs:\<newline>''
              @ ''    - --service-cidr=10.96.0.0/12\<newline>\<newline>storage:\<newline>  size: 5Gi''"
    by code_simp
  have b2: "build_values ''rancher/k3s:v1.19.8-k3s1'' (TrimSpace ''10.43.0.0/16'')
              (map_index (map_of baseArgsMap) ''1.19'') False
            = ''vcluster:\<newline>  image: rancher/k3s:v1.19.8-k3s1\<newline>  extraArgs:\<newline>''
              @ ''    - --service-cidr=10.43.0.0/16\<newline>\<newline>storage:\<newline>  size: 5Gi''"
    by code_simp
  note t1 = getReleaseValues_cidr [OF v1 digits img, of "''default''" False]
  note t2 = getReleaseValues_cidr [OF v2 digits img, of "''default''" False]
  note t3 = getReleaseValues_cidr [OF v3 digits img, of "''default''" False]
  from t1 p1 have r1: "getReleaseValues client_created ''default'' False =
      ([] @ [Warnf warn_no_cidr []],
       Inr (build_values ''rancher/k3s:v1.19.8-k3s1'' ''10.96.0.0/12''
              (map_index (map_of baseArgsMap) ''1.19'') False))"
    by blast
  from t2 p2 have r2: "getReleaseValues client_range ''default'' False =
      ([],
       Inr (build_values ''rancher/k3s:v1.19.8-k3s1'' (TrimSpace ''10.43.0.0/16'')
              (map_index (map_of baseArgsMap) ''1.19'') False))"
    by blast
  from t3 p3 have r3: "getReleaseValues client_other ''default'' False =
      ([] @ [Warnf (warn_no_cidr_in (Error other_error)) []],
       Inr (build_values ''rancher/k3s:v1.19.8-k3s1'' ''10.96.0.0/12''
              (map_index (map_of baseArgsMap) ''1.19'') False))"
    by blast
  show ?thesis
    unfolding r1 r2 r3 b1 b2 by simp
qed

end
